theory Spec2Isabelle
  imports Complex_Main "HOL-Library.Multiset" "HOL-Library.Product_Lexorder"
begin

section \<open>Numbers, dates and the host clock\<close>

text \<open>
  A JavaScript \<open>number\<close> that holds a finite value is modelled by a rational (every finite
  double is one); arithmetic is exact, so the rounding error of IEEE doubles and the
  infinities are outside the model. \<open>NaN\<close>, where the code can meet it (the result of
  \<open>parseFloat\<close>), is \<open>None\<close> of an option.

  A trade date is a string \<open>YYYY-MM-DD\<close>. It is represented by its three numeric fields
  (year, month, day); \<open>new Date(s).getTime()\<close> is the instant of UTC midnight of that day,
  and for calendar dates its order is the lexicographic order of the fields, which is the
  order \<open>\<le>\<close> of the triple.
\<close>

type_synonym date = "int \<times> nat \<times> nat"

definition yearOf :: "date \<Rightarrow> int" where
  "yearOf d = fst d"

definition monthOf :: "date \<Rightarrow> nat" where
  "monthOf d = fst (snd d)"

definition dayOf :: "date \<Rightarrow> nat" where
  "dayOf d = snd (snd d)"

definition isLeapYear :: "int \<Rightarrow> bool" where
  "isLeapYear y = (y mod 4 = 0 \<and> (y mod 100 \<noteq> 0 \<or> y mod 400 = 0))"

definition daysInMonth :: "int \<Rightarrow> nat \<Rightarrow> nat" where
  "daysInMonth y m =
     (if m = 2 then (if isLeapYear y then 29 else 28)
      else if m = 4 \<or> m = 6 \<or> m = 9 \<or> m = 11 then 30
      else 31)"

definition prevDay :: "date \<Rightarrow> date" where
  "prevDay d =
     (if 1 < dayOf d then (yearOf d, monthOf d, dayOf d - 1)
      else if 1 < monthOf d then (yearOf d, monthOf d - 1, daysInMonth (yearOf d) (monthOf d - 1))
      else (yearOf d - 1, 12, 31))"

text \<open>
  The \<open>Date\<close> object reads the host's time zone. The zone is a parameter \<open>tz\<close>: the
  host's offset from UTC in minutes, positive east of Greenwich (JavaScript's
  \<open>-getTimezoneOffset()\<close>), between \<open>-720\<close> and \<open>840\<close>.

  \<^item> \<open>new Date("YYYY-MM-DD")\<close> is UTC midnight of that day; \<open>getFullYear()\<close>,
    \<open>getMonth()\<close> and \<open>getDate()\<close> read it in local time, which is the same day on a host at
    or east of UTC and the day before on a host west of UTC (\<open>localDate\<close>).
  \<^item> \<open>new Date(y, m, d)\<close> is local midnight; \<open>toISOString().split('T')[0]\<close> is its day
    in UTC, which is the same day on a host at or west of UTC and the day before on a host
    east of UTC (\<open>isoDateOfLocal\<close>).
\<close>

definition localDate :: "int \<Rightarrow> date \<Rightarrow> date" where
  "localDate tz d = (if tz < 0 then prevDay d else d)"

definition isoDateOfLocal :: "int \<Rightarrow> date \<Rightarrow> date" where
  "isoDateOfLocal tz d = (if 0 < tz then prevDay d else d)"

section \<open>Array.prototype.sort\<close>

text \<open>
  \<open>xs.sort(compareFn)\<close> is stable: elements that compare equal keep their order. For
  a comparator that orders by a key it returns the one stable sorted arrangement, which
  insertion from the right computes. The relation \<open>le a b\<close> stands for
  \<open>compareFn(a, b) \<le> 0\<close>.
\<close>

fun insertSorted :: "('a \<Rightarrow> 'a \<Rightarrow> bool) \<Rightarrow> 'a \<Rightarrow> 'a list \<Rightarrow> 'a list" where
  "insertSorted le x [] = [x]"
| "insertSorted le x (y # ys) = (if le x y then x # y # ys else y # insertSorted le x ys)"

definition arraySort :: "('a \<Rightarrow> 'a \<Rightarrow> bool) \<Rightarrow> 'a list \<Rightarrow> 'a list" where
  "arraySort le xs = foldr (insertSorted le) xs []"

section \<open>Trades (types/trading.ts)\<close>

text \<open>
  The fields of \<open>Trade\<close> that the analytics read. \<open>id\<close> is named \<open>tradeId\<close>; the user
  id, the account id, the trade type, the entry and exit prices and the notes are read by
  none of the functions below and are left out.
\<close>

record Trade =
  tradeId :: string
  date :: date
  symbol :: string
  plAmount :: rat
  fees :: rat
  netPL :: rat

section \<open>Trade statistics (utils/historicalUtils.ts)\<close>

text \<open>
  \<open>Math.max(x, ...ys)\<close> and \<open>Math.min(x, ...ys)\<close> on at least one argument. (Without
  arguments they return the infinities; the callers below never do that.)
\<close>

fun Math_max :: "rat \<Rightarrow> rat list \<Rightarrow> rat" where
  "Math_max x [] = x"
| "Math_max x (y # ys) = Math_max (max x y) ys"

fun Math_min :: "rat \<Rightarrow> rat list \<Rightarrow> rat" where
  "Math_min x [] = x"
| "Math_min x (y # ys) = Math_min (min x y) ys"

record TradeStats =
  totalTrades :: nat
  totalPnL :: rat
  totalFees :: rat
  winningTrades :: nat
  losingTrades :: nat
  winRate :: rat
  bestTrade :: rat
  worstTrade :: rat
  averagePnL :: rat

definition calculateTradeStats :: "Trade list \<Rightarrow> TradeStats" where
  "calculateTradeStats trades =
     (let totalTrades = length trades;
          totalPnL = foldl (\<lambda>sum trade. sum + netPL trade) 0 trades;
          totalFees = foldl (\<lambda>sum trade. sum + fees trade) 0 trades;
          winningTrades = length (filter (\<lambda>t. netPL t > 0) trades);
          losingTrades = length (filter (\<lambda>t. netPL t < 0) trades);
          winRate = (if totalTrades > 0
                     then (rat_of_nat winningTrades / rat_of_nat totalTrades) * 100 else 0);
          bestTrade = (case map netPL trades of [] \<Rightarrow> 0 | x # xs \<Rightarrow> Math_max x xs);
          worstTrade = (case map netPL trades of [] \<Rightarrow> 0 | x # xs \<Rightarrow> Math_min x xs);
          averagePnL = (if totalTrades > 0 then totalPnL / rat_of_nat totalTrades else 0)
      in \<lparr> totalTrades = totalTrades, totalPnL = totalPnL, totalFees = totalFees,
           winningTrades = winningTrades, losingTrades = losingTrades, winRate = winRate,
           bestTrade = bestTrade, worstTrade = worstTrade, averagePnL = averagePnL \<rparr>)"

text \<open>
  \<open>filterTradesByDateRange\<close> compares the instants of the three date strings, that is the
  dates themselves.
\<close>

definition filterTradesByDateRange :: "Trade list \<Rightarrow> date \<Rightarrow> date \<Rightarrow> Trade list" where
  "filterTradesByDateRange trades startDate endDate =
     filter (\<lambda>trade. date trade \<ge> startDate \<and> date trade \<le> endDate) trades"

subsection \<open>Maximum drawdown\<close>

text \<open>The three variables of the loop in \<open>calculateMaxDrawdown\<close>.\<close>

record DrawdownState =
  peak :: rat
  runningTotal :: rat
  maxDrawdown :: rat

definition drawdownStep :: "DrawdownState \<Rightarrow> Trade \<Rightarrow> DrawdownState" where
  "drawdownStep s trade =
     (let runningTotal' = runningTotal s + netPL trade;
          peak' = (if runningTotal' > peak s then runningTotal' else peak s);
          drawdown = peak' - runningTotal';
          maxDrawdown' = (if drawdown > maxDrawdown s then drawdown else maxDrawdown s)
      in \<lparr> peak = peak', runningTotal = runningTotal', maxDrawdown = maxDrawdown' \<rparr>)"

text \<open>The comparator \<open>new Date(a.date).getTime() - new Date(b.date).getTime()\<close>.\<close>

definition byDateAscending :: "Trade \<Rightarrow> Trade \<Rightarrow> bool" where
  "byDateAscending a b = (date a \<le> date b)"

definition calculateMaxDrawdown :: "Trade list \<Rightarrow> rat" where
  "calculateMaxDrawdown trades =
     (if length trades = 0 then 0
      else let sortedTrades = arraySort byDateAscending trades
           in maxDrawdown (foldl drawdownStep
                \<lparr> peak = 0, runningTotal = 0, maxDrawdown = 0 \<rparr> sortedTrades))"

subsection \<open>Grouping by month and the historical report\<close>

text \<open>
  \<open>getMonthKey(year, month)\<close> builds the string \<open>YYYY-MM\<close>; the key is modelled by the
  pair it is built from. A \<open>Map\<close> is an association list in insertion order.
\<close>

type_synonym monthKey = "int \<times> nat"

definition getMonthKey :: "int \<Rightarrow> nat \<Rightarrow> monthKey" where
  "getMonthKey year month = (year, month)"

definition monthNames :: "string list" where
  "monthNames = [''January'', ''February'', ''March'', ''April'', ''May'', ''June'',
     ''July'', ''August'', ''September'', ''October'', ''November'', ''December'']"

definition getMonthName :: "nat \<Rightarrow> string" where
  "getMonthName month =
     (if 1 \<le> month \<and> month \<le> length monthNames then monthNames ! (month - 1)
      else ''Unknown'')"

text \<open>
  One round of the \<open>forEach\<close> of \<open>groupTradesByMonth\<close>: the key is read with the local
  getters from \<open>new Date(trade.date)\<close>; an absent key gets a new empty array at the end of
  the map, then the trade is pushed to the key's array.
\<close>

fun pushTo :: "monthKey \<Rightarrow> Trade \<Rightarrow> (monthKey \<times> Trade list) list \<Rightarrow> (monthKey \<times> Trade list) list" where
  "pushTo key trade [] = [(key, [trade])]"
| "pushTo key trade ((k, ts) # rest) =
     (if k = key then (k, ts @ [trade]) # rest else (k, ts) # pushTo key trade rest)"

definition tradeMonthKey :: "int \<Rightarrow> Trade \<Rightarrow> monthKey" where
  "tradeMonthKey tz trade =
     (let d = localDate tz (date trade);
          year = yearOf d;
          month = monthOf d
      in getMonthKey year month)"

definition groupTradesByMonth :: "int \<Rightarrow> Trade list \<Rightarrow> (monthKey \<times> Trade list) list" where
  "groupTradesByMonth tz trades =
     foldl (\<lambda>grouped trade. pushTo (tradeMonthKey tz trade) trade grouped) [] trades"

datatype Timeframe = Daily | Weekly | Monthly | Yearly

record MonthlyBreakdownEntry =
  month :: nat
  monthName :: string
  trades :: nat
  pnl :: rat
  winRate :: rat

text \<open>
  The report of \<open>generateHistoricalAnalytics\<close>. The statistics spread into the report are
  kept together in \<open>basicStats\<close>; the user id, the consistency figures and the top symbols,
  which the breakdown does not depend on, are left out.
\<close>

record HistoricalAnalytics =
  timeframe :: Timeframe
  startDate :: date
  endDate :: date
  basicStats :: TradeStats
  reportMaxDrawdown :: rat
  monthlyBreakdown :: "MonthlyBreakdownEntry list option"

definition breakdownEntry :: "int \<Rightarrow> (monthKey \<times> Trade list) list \<Rightarrow> date \<Rightarrow> nat \<Rightarrow> MonthlyBreakdownEntry" where
  "breakdownEntry tz monthlyGroups start m =
     (let year = yearOf (localDate tz start);
          key = getMonthKey year m;
          monthTrades = (case map_of monthlyGroups key of Some ts \<Rightarrow> ts | None \<Rightarrow> []);
          monthStats = calculateTradeStats monthTrades
      in \<lparr> month = m, monthName = getMonthName m,
           trades = totalTrades monthStats, pnl = totalPnL monthStats,
           winRate = TradeStats.winRate monthStats \<rparr>)"

definition generateHistoricalAnalytics :: "int \<Rightarrow> Trade list \<Rightarrow> Timeframe \<Rightarrow> date \<Rightarrow> date \<Rightarrow> HistoricalAnalytics" where
  "generateHistoricalAnalytics tz allTrades tf start end' =
     (let filteredTrades = filterTradesByDateRange allTrades start end';
          stats = calculateTradeStats filteredTrades;
          dd = calculateMaxDrawdown filteredTrades;
          breakdown =
            (if tf = Yearly
             then let monthlyGroups = groupTradesByMonth tz filteredTrades
                  in Some (map (breakdownEntry tz monthlyGroups start) [1..<13])
             else None)
      in \<lparr> timeframe = tf, startDate = start, endDate = end', basicStats = stats,
           reportMaxDrawdown = dd, monthlyBreakdown = breakdown \<rparr>)"

section \<open>Portfolio summary (services/tradingService.ts)\<close>

text \<open>
  \<open>getPortfolioSummary\<close> loads the user's trades and summarises them; the model takes the
  loaded array. A failed load is rethrown to the caller before anything is computed and is
  not part of the model.
\<close>

record PortfolioSummary =
  totalTrades :: nat
  totalNetPL :: rat
  totalFees :: rat
  winningTrades :: nat
  losingTrades :: nat
  winRate :: rat
  bestTrade :: rat
  worstTrade :: rat
  averageNetPL :: rat

definition getPortfolioSummary :: "Trade list \<Rightarrow> PortfolioSummary" where
  "getPortfolioSummary loaded =
     (let totalTrades = length loaded;
          totalNetPL = foldl (\<lambda>sum trade. sum + netPL trade) 0 loaded;
          totalFees = foldl (\<lambda>sum trade. sum + fees trade) 0 loaded;
          winningTrades = length (filter (\<lambda>t. netPL t > 0) loaded);
          losingTrades = length (filter (\<lambda>t. netPL t < 0) loaded);
          winRate = (if totalTrades > 0
                     then (rat_of_nat winningTrades / rat_of_nat totalTrades) * 100 else 0);
          bestTrade = (case map netPL loaded of [] \<Rightarrow> 0 | x # xs \<Rightarrow> Math_max x xs);
          worstTrade = (case map netPL loaded of [] \<Rightarrow> 0 | x # xs \<Rightarrow> Math_min x xs);
          averageNetPL = (if totalTrades > 0 then totalNetPL / rat_of_nat totalTrades else 0)
      in \<lparr> PortfolioSummary.totalTrades = totalTrades, totalNetPL = totalNetPL,
           PortfolioSummary.totalFees = totalFees,
           PortfolioSummary.winningTrades = winningTrades,
           PortfolioSummary.losingTrades = losingTrades,
           PortfolioSummary.winRate = winRate,
           PortfolioSummary.bestTrade = bestTrade,
           PortfolioSummary.worstTrade = worstTrade, averageNetPL = averageNetPL \<rparr>)"

section \<open>Portfolio metrics (utils/tradingUtils.ts)\<close>

text \<open>
  Modelled from the spec: the trade type that \<open>calculatePortfolioMetrics\<close> is written
  against, whose declaration is not among the sources. It is the second trade model of the
  spec's design notes, with the result derived from prices and quantity: its trades carry a
  \<open>status\<close>, an optional \<open>netPnl\<close>, a \<open>quantity\<close>, an \<open>entryPrice\<close> and \<open>fees\<close>. The
  record has the fields that the function reads, with the types it reads them at.
\<close>

datatype TradeStatus = OPEN | CLOSED

record PositionTrade =
  status :: TradeStatus
  netPnl :: "rat option"
  quantity :: rat
  entryPrice :: rat
  fees :: rat

text \<open>\<open>t.netPnl || 0\<close>: an absent value counts as zero.\<close>

definition netPnlOrZero :: "PositionTrade \<Rightarrow> rat" where
  "netPnlOrZero t = (case netPnl t of Some v \<Rightarrow> v | None \<Rightarrow> 0)"

record PortfolioMetrics =
  totalTrades :: nat
  openTrades :: nat
  closedTrades :: nat
  winningTrades :: nat
  losingTrades :: nat
  winRate :: rat
  totalPnl :: rat
  totalFees :: rat
  totalInvestment :: rat
  averagePnl :: rat
  bestTrade :: rat
  worstTrade :: rat
  returnOnInvestment :: rat

text \<open>
  \<open>Math.max(...trades.map(t => t.netPnl || 0), 0)\<close>: the literal \<open>0\<close> is one of the
  arguments. The source passes it last; \<open>Math.max\<close> and \<open>Math.min\<close> do not depend on the
  order of their arguments, and the model passes it first.
\<close>

definition calculatePortfolioMetrics :: "PositionTrade list \<Rightarrow> PortfolioMetrics" where
  "calculatePortfolioMetrics ts =
     (let closed = filter (\<lambda>t. status t = CLOSED) ts;
          opened = filter (\<lambda>t. status t = OPEN) ts;
          totalPnl = foldl (\<lambda>sum trade. sum + netPnlOrZero trade) 0 ts;
          totalFees = foldl (\<lambda>sum trade. sum + PositionTrade.fees trade) 0 ts;
          totalInvestment = foldl (\<lambda>sum trade. sum + entryPrice trade * quantity trade) 0 ts;
          winning = filter (\<lambda>t. netPnlOrZero t > 0) closed;
          losing = filter (\<lambda>t. netPnlOrZero t < 0) closed;
          winRate = (if length closed > 0
                     then (rat_of_nat (length winning) / rat_of_nat (length closed)) * 100 else 0);
          averagePnl = (if length ts > 0 then totalPnl / rat_of_nat (length ts) else 0);
          bestTrade = Math_max 0 (map netPnlOrZero ts);
          worstTrade = Math_min 0 (map netPnlOrZero ts)
      in \<lparr> PortfolioMetrics.totalTrades = length ts, openTrades = length opened,
           closedTrades = length closed,
           PortfolioMetrics.winningTrades = length winning,
           PortfolioMetrics.losingTrades = length losing,
           PortfolioMetrics.winRate = winRate, totalPnl = totalPnl,
           PortfolioMetrics.totalFees = totalFees, totalInvestment = totalInvestment,
           averagePnl = averagePnl,
           PortfolioMetrics.bestTrade = bestTrade,
           PortfolioMetrics.worstTrade = worstTrade,
           returnOnInvestment =
             (if totalInvestment > 0 then (totalPnl / totalInvestment) * 100 else 0) \<rparr>)"

section \<open>Daily statistics (components/SimpleTradingJournal.tsx)\<close>

record DailyTarget =
  dailyPnLTarget :: rat
  dailyTradesTarget :: nat
  currentDayPnL :: rat
  currentDayTrades :: nat
  streak :: nat

text \<open>The comparator \<open>new Date(b.date).getTime() - new Date(a.date).getTime()\<close>.\<close>

definition byDateDescending :: "Trade \<Rightarrow> Trade \<Rightarrow> bool" where
  "byDateDescending a b = (date b \<le> date a)"

text \<open>
  The loop \<open>for (const trade of sortedTrades) { if (trade.netPL > 0) streak++; else break; }\<close>,
  started with the value of \<open>streak\<close> so far.
\<close>

fun countStreak :: "nat \<Rightarrow> Trade list \<Rightarrow> nat" where
  "countStreak n [] = n"
| "countStreak n (trade # rest) = (if netPL trade > 0 then countStreak (n + 1) rest else n)"

text \<open>
  \<open>calculateDailyStats\<close> reads the day from the clock (\<open>today\<close>, the UTC date of
  \<open>new Date()\<close>) and updates the component's \<open>dailyTarget\<close> state (\<open>prev\<close>).
\<close>

definition calculateDailyStats :: "date \<Rightarrow> Trade list \<Rightarrow> DailyTarget \<Rightarrow> DailyTarget" where
  "calculateDailyStats today allTrades prev =
     (let todayTrades = filter (\<lambda>trade. date trade = today) allTrades;
          dayPnL = foldl (\<lambda>sum trade. sum + netPL trade) 0 todayTrades;
          dayTrades = length todayTrades;
          sortedTrades = arraySort byDateDescending allTrades;
          n = countStreak 0 sortedTrades
      in prev\<lparr> currentDayPnL := dayPnL, currentDayTrades := dayTrades, streak := n \<rparr>)"

section \<open>Monthly targets (services/monthlyTargetsService.ts)\<close>

text \<open>
  A \<open>MonthlyTarget\<close> document; \<open>id\<close> is named \<open>targetId\<close>. A \<open>Date\<close> in a document is
  a number of milliseconds. The collection \<open>monthlyTargets\<close> is the list of its documents,
  and a query returns the matching documents in the collection's order. Requests to the
  database that fail are rethrown to the caller and change nothing; the model is of the
  requests that succeed.
\<close>

record MonthlyTarget =
  targetId :: string
  userId :: string
  year :: int
  month :: nat
  monthName :: string
  pnlTarget :: rat
  tradesTarget :: rat
  winRateTarget :: rat
  currentPnL :: rat
  currentTrades :: rat
  currentWinRate :: rat
  isCompleted :: bool
  completedAt :: "nat option"
  createdAt :: nat
  updatedAt :: nat

definition getMonthlyTarget :: "MonthlyTarget list \<Rightarrow> string \<Rightarrow> int \<Rightarrow> nat \<Rightarrow> MonthlyTarget option" where
  "getMonthlyTarget db uid y m =
     (case filter (\<lambda>t. userId t = uid \<and> year t = y \<and> MonthlyTarget.month t = m) db of
        [] \<Rightarrow> None
      | doc # _ \<Rightarrow> Some doc)"

text \<open>
  The \<open>Partial<MonthlyTarget>\<close> that \<open>updateMonthlyTargetProgress\<close> builds: four fields
  are always present, \<open>completedAt\<close> only when it is assigned (\<open>None\<close>: the key is absent).
\<close>

record ProgressUpdates =
  newCurrentPnL :: rat
  newCurrentTrades :: rat
  newCurrentWinRate :: rat
  newIsCompleted :: bool
  newCompletedAt :: "nat option"

text \<open>
  \<open>updateDoc\<close> overwrites the fields that are present in the update and keeps the others.
\<close>

definition applyUpdates :: "ProgressUpdates \<Rightarrow> nat \<Rightarrow> MonthlyTarget \<Rightarrow> MonthlyTarget" where
  "applyUpdates updates now doc =
     doc\<lparr> currentPnL := newCurrentPnL updates,
          currentTrades := newCurrentTrades updates,
          currentWinRate := newCurrentWinRate updates,
          isCompleted := newIsCompleted updates,
          completedAt := (case newCompletedAt updates of
                            Some stamp \<Rightarrow> Some stamp
                          | None \<Rightarrow> completedAt doc),
          updatedAt := now \<rparr>"

definition updateMonthlyTarget :: "string \<Rightarrow> ProgressUpdates \<Rightarrow> nat \<Rightarrow> MonthlyTarget list \<Rightarrow> MonthlyTarget list" where
  "updateMonthlyTarget tid updates now db =
     map (\<lambda>doc. if targetId doc = tid then applyUpdates updates now doc else doc) db"

text \<open>
  The month's range: \<open>new Date(year, month - 1, 1)\<close> and \<open>new Date(year, month, 0)\<close> (the
  last day of the month) are local midnights, turned into date strings by \<open>toISOString\<close>.
  The month of a target is between 1 and 12.
\<close>

definition monthRange :: "int \<Rightarrow> int \<Rightarrow> nat \<Rightarrow> date \<times> date" where
  "monthRange tz y m =
     (isoDateOfLocal tz (y, m, 1), isoDateOfLocal tz (y, m, daysInMonth y m))"

definition progressUpdates :: "MonthlyTarget \<Rightarrow> TradeStats \<Rightarrow> nat \<Rightarrow> ProgressUpdates" where
  "progressUpdates target stats now =
     (let completed =
            (totalPnL stats \<ge> pnlTarget target \<and>
             rat_of_nat (TradeStats.totalTrades stats) \<ge> tradesTarget target \<and>
             TradeStats.winRate stats \<ge> winRateTarget target)
      in \<lparr> newCurrentPnL = totalPnL stats,
           newCurrentTrades = rat_of_nat (TradeStats.totalTrades stats),
           newCurrentWinRate = TradeStats.winRate stats,
           newIsCompleted = completed,
           newCompletedAt = (if completed \<and> \<not> isCompleted target then Some now else None) \<rparr>)"

text \<open>
  \<open>updateMonthlyTargetProgress\<close> on the collection \<open>db\<close>, at the instant \<open>now\<close> of the
  clock; it returns the collection afterwards.
\<close>

definition updateMonthlyTargetProgress :: "int \<Rightarrow> nat \<Rightarrow> string \<Rightarrow> int \<Rightarrow> nat \<Rightarrow> Trade list \<Rightarrow> MonthlyTarget list \<Rightarrow> MonthlyTarget list" where
  "updateMonthlyTargetProgress tz now uid y m allTrades db =
     (case getMonthlyTarget db uid y m of
        None \<Rightarrow> db
      | Some target \<Rightarrow>
          (let range = monthRange tz y m;
               monthTrades = filterTradesByDateRange allTrades (fst range) (snd range);
               stats = calculateTradeStats monthTrades;
               updates = progressUpdates target stats now
           in updateMonthlyTarget (targetId target) updates now db))"

section \<open>Position size calculator (components/PositionSizeCalculator.tsx)\<close>

text \<open>
  The text of a form field, as far as \<open>parseFloat\<close> and the truth test of a string tell
  texts apart: the empty string, a text that does not start with a number, and a text that
  reads as the number \<open>x\<close>.
\<close>

datatype FieldText = Blank | NotNumeric | Numeric rat

text \<open>\<open>parseFloat\<close>; \<open>None\<close> is \<open>NaN\<close>.\<close>

fun parseFloat :: "FieldText \<Rightarrow> rat option" where
  "parseFloat Blank = None"
| "parseFloat NotNumeric = None"
| "parseFloat (Numeric x) = Some x"

text \<open>The truth test of a number (\<open>!x\<close> is its negation): \<open>NaN\<close> and \<open>0\<close> are false.\<close>

fun truthy :: "rat option \<Rightarrow> bool" where
  "truthy None = False"
| "truthy (Some x) = (x \<noteq> 0)"

record CalculatorFormData =
  accountBalance :: FieldText
  riskPercentage :: FieldText
  stopLossPips :: FieldText
  pair :: string
  takeProfitPips :: FieldText

record CalculationResults =
  lotSize :: rat
  riskAmount :: rat
  potentialProfit :: "rat option"
  pipValue :: rat

text \<open>The table \<open>pairOptions\<close>: value, label and pip value of each pair.\<close>

definition pairOptions :: "(string \<times> string \<times> rat) list" where
  "pairOptions =
     [(''XAUUSD'', ''Gold (XAUUSD)'', 1/10),
      (''EURUSD'', ''EUR/USD'', 1/10),
      (''GBPUSD'', ''GBP/USD'', 1/10),
      (''USDJPY'', ''USD/JPY'', 91/1000),
      (''USDCHF'', ''USD/CHF'', 1/10),
      (''AUDUSD'', ''AUD/USD'', 1/10),
      (''USDCAD'', ''USD/CAD'', 75/1000),
      (''NZDUSD'', ''NZD/USD'', 1/10),
      (''EURJPY'', ''EUR/JPY'', 91/1000),
      (''GBPJPY'', ''GBP/JPY'', 91/1000)]"

text \<open>
  \<open>parseFloat(x.toFixed(n))\<close>: the multiple of \<open>10\<^sup>-\<^sup>n\<close> nearest to \<open>x\<close>, the one of
  larger magnitude when two are equally near.
\<close>

definition toFixed :: "nat \<Rightarrow> rat \<Rightarrow> rat" where
  "toFixed n x =
     (if x < 0 then - (of_int \<lfloor>(- x) * 10 ^ n + 1/2\<rfloor> / 10 ^ n)
      else of_int \<lfloor>x * 10 ^ n + 1/2\<rfloor> / 10 ^ n)"

text \<open>
  \<open>calculatePositionSize\<close> reads the form and, unless it returns early, replaces the
  component's \<open>results\<close> state; it returns nothing and raises nothing. The model returns the
  \<open>results\<close> state afterwards. \<open>takeProfit\<close> is \<open>null\<close> for an empty field; \<open>null\<close> and
  \<open>NaN\<close> are both \<open>None\<close>, as the code only tests \<open>takeProfit\<close> for truth.
\<close>

definition calculatePositionSize :: "CalculatorFormData \<Rightarrow> CalculationResults option \<Rightarrow> CalculationResults option" where
  "calculatePositionSize formData results =
     (let balance = parseFloat (accountBalance formData);
          riskPercent = parseFloat (riskPercentage formData);
          stopLoss = parseFloat (stopLossPips formData);
          selectedPair = List.find (\<lambda>p. fst p = pair formData) pairOptions;
          takeProfit = (if takeProfitPips formData \<noteq> Blank
                        then parseFloat (takeProfitPips formData) else None)
      in if \<not> truthy balance \<or> \<not> truthy riskPercent \<or> \<not> truthy stopLoss \<or> selectedPair = None
         then results
         else
           (let risk = (the balance * the riskPercent) / 100;
                pv = snd (snd (the selectedPair));
                lot = risk / (the stopLoss * pv);
                profit = (if truthy takeProfit then Some (the takeProfit * pv * lot) else None)
            in Some \<lparr> lotSize = toFixed 4 lot,
                      riskAmount = toFixed 2 risk,
                      potentialProfit = (if truthy profit then Some (toFixed 2 (the profit)) else None),
                      pipValue = pv \<rparr>))"

section \<open>Example data\<close>

text \<open>A trade without fees, for the worked examples: its name, its date and its net result.\<close>

definition sampleTrade :: "string \<Rightarrow> date \<Rightarrow> rat \<Rightarrow> Trade" where
  "sampleTrade n d v =
     \<lparr> tradeId = n, date = d, symbol = ''XAUUSD'', plAmount = v, fees = 0, netPL = v \<rparr>"

text \<open>A target for March 2025 that nothing has been recorded against yet.\<close>

definition sampleTarget :: MonthlyTarget where
  "sampleTarget =
     \<lparr> targetId = ''m1'', userId = ''u1'', year = 2025, month = 3, monthName = ''March 2025'',
       pnlTarget = 100, tradesTarget = 2, winRateTarget = 60,
       currentPnL = 0, currentTrades = 0, currentWinRate = 0,
       isCompleted = False, completedAt = None, createdAt = 0, updatedAt = 0 \<rparr>"

section \<open>Auxiliary lemmas\<close>

lemma sampleTrade_simps [simp]:
  "netPL (sampleTrade n d v) = v" "date (sampleTrade n d v) = d"
  "Trade.fees (sampleTrade n d v) = 0" "tradeId (sampleTrade n d v) = n"
  by (simp_all add: sampleTrade_def)

subsection \<open>Sorting\<close>

lemma mset_insertSorted: "mset (insertSorted le x xs) = add_mset x (mset xs)"
  by (induction xs) simp_all

lemma mset_arraySort: "mset (arraySort le xs) = mset xs"
  by (induction xs) (simp_all add: arraySort_def mset_insertSorted)

lemma insertSorted_insort_key:
  "insertSorted (\<lambda>a b. f a \<le> f b) x xs = insort_key f x xs"
  by (induction xs) simp_all

lemma arraySort_sort_key: "arraySort (\<lambda>a b. f a \<le> f b) xs = sort_key f xs"
  by (induction xs) (simp_all add: arraySort_def insertSorted_insort_key)

lemma filter_key_distinct:
  "distinct (map f xs) \<Longrightarrow> k \<in> set xs \<Longrightarrow> filter (\<lambda>x. f k = f x) xs = [k]"
proof (induction xs)
  case Nil
  then show ?case by simp
next
  case (Cons a xs)
  show ?case
  proof (cases "a = k")
    case True
    with Cons.prems have "\<forall>x\<in>set xs. f k \<noteq> f x" by auto
    then have "filter (\<lambda>x. f k = f x) xs = []" by (simp add: filter_empty_conv)
    with True show ?thesis by simp
  next
    case False
    with Cons.prems have k: "k \<in> set xs" and d: "distinct (map f xs)" by auto
    from Cons.prems k have "f a \<noteq> f k" by auto
    with Cons.IH[OF d k] show ?thesis by auto
  qed
qed

lemma sort_key_distinct_perm:
  fixes f :: "'a \<Rightarrow> 'k::linorder"
  assumes "mset xs = mset ys" and "distinct (map f xs)"
  shows "sort_key f xs = sort_key f ys"
proof (rule properties_for_sort_key)
  show "mset (sort_key f ys) = mset xs" using assms(1) by simp
  show "sorted (map f (sort_key f ys))" by simp
  fix k assume k: "k \<in> set (sort_key f ys)"
  have "mset (map f (sort_key f ys)) = mset (map f xs)" using assms(1) by simp
  then have d: "distinct (map f (sort_key f ys))"
    using assms(2) mset_eq_imp_distinct_iff by blast
  have kx: "k \<in> set xs" using k assms(1) by (metis mset_eq_setD set_sort)
  show "filter (\<lambda>x. f k = f x) (sort_key f ys) = filter (\<lambda>x. f k = f x) xs"
    using filter_key_distinct[OF d k] filter_key_distinct[OF assms(2) kx] by simp
qed

lemma sorted_wrt_insertSorted:
  assumes tot: "\<And>a b. le a b \<or> le b a" and tr: "\<And>a b c. le a b \<Longrightarrow> le b c \<Longrightarrow> le a c"
  shows "sorted_wrt le xs \<Longrightarrow> sorted_wrt le (insertSorted le x xs)"
proof (induction xs)
  case Nil
  then show ?case by simp
next
  case (Cons y ys)
  show ?case
  proof (cases "le x y")
    case True
    with Cons.prems tr show ?thesis by auto
  next
    case False
    with tot have yx: "le y x" by blast
    have "set (insertSorted le x ys) = insert x (set ys)"
      by (metis mset_insertSorted set_mset_add_mset_insert set_mset_mset)
    with False yx Cons show ?thesis by auto
  qed
qed

lemma sorted_wrt_arraySort:
  assumes tot: "\<And>a b. le a b \<or> le b a" and tr: "\<And>a b c. le a b \<Longrightarrow> le b c \<Longrightarrow> le a c"
  shows "sorted_wrt le (arraySort le xs)"
proof (induction xs)
  case Nil
  then show ?case by (simp add: arraySort_def)
next
  case (Cons a xs)
  have "arraySort le (a # xs) = insertSorted le a (arraySort le xs)" by (simp add: arraySort_def)
  with Cons sorted_wrt_insertSorted[of le, OF tot tr] show ?case by simp
qed

lemma countStreak_takeWhile:
  "countStreak n ts = n + length (takeWhile (\<lambda>t. netPL t > 0) ts)"
  by (induction ts arbitrary: n) simp_all

lemma drawdownStep_nonneg: "0 \<le> maxDrawdown s \<Longrightarrow> 0 \<le> maxDrawdown (drawdownStep s t)"
  by (simp add: drawdownStep_def Let_def)

lemma foldl_drawdown_nonneg: "0 \<le> maxDrawdown s \<Longrightarrow> 0 \<le> maxDrawdown (foldl drawdownStep s ts)"
  by (induction ts arbitrary: s) (simp_all add: drawdownStep_nonneg)

lemma Math_max_Max: "Math_max x xs = Max (set (x # xs))"
proof (induction xs arbitrary: x)
  case Nil
  then show ?case by simp
next
  case (Cons y ys)
  have "Max (insert (max x y) (set ys)) = Max (insert x (insert y (set ys)))"
    by (cases "set ys = {}") (simp_all add: max.assoc)
  with Cons show ?case by simp
qed

lemma Math_min_Min: "Math_min x xs = Min (set (x # xs))"
proof (induction xs arbitrary: x)
  case Nil
  then show ?case by simp
next
  case (Cons y ys)
  have "Min (insert (min x y) (set ys)) = Min (insert x (insert y (set ys)))"
    by (cases "set ys = {}") (simp_all add: min.assoc)
  with Cons show ?case by simp
qed

subsection \<open>Statistics\<close>

lemma calculateTradeStats_fields:
  "TradeStats.totalTrades (calculateTradeStats ts) = length ts"
  "totalPnL (calculateTradeStats ts) = foldl (\<lambda>sum trade. sum + netPL trade) 0 ts"
  "TradeStats.winningTrades (calculateTradeStats ts) = length (filter (\<lambda>t. netPL t > 0) ts)"
  "TradeStats.losingTrades (calculateTradeStats ts) = length (filter (\<lambda>t. netPL t < 0) ts)"
  "TradeStats.winRate (calculateTradeStats ts) =
     (if length ts > 0
      then (rat_of_nat (length (filter (\<lambda>t. netPL t > 0) ts)) / rat_of_nat (length ts)) * 100
      else 0)"
  "TradeStats.bestTrade (calculateTradeStats ts) =
     (case map netPL ts of [] \<Rightarrow> 0 | x # xs \<Rightarrow> Math_max x xs)"
  "TradeStats.worstTrade (calculateTradeStats ts) =
     (case map netPL ts of [] \<Rightarrow> 0 | x # xs \<Rightarrow> Math_min x xs)"
  unfolding calculateTradeStats_def Let_def by simp_all

lemma getPortfolioSummary_fields:
  "PortfolioSummary.totalTrades (getPortfolioSummary ts) = length ts"
  "PortfolioSummary.winningTrades (getPortfolioSummary ts) = length (filter (\<lambda>t. netPL t > 0) ts)"
  "PortfolioSummary.winRate (getPortfolioSummary ts) =
     (if length ts > 0
      then (rat_of_nat (length (filter (\<lambda>t. netPL t > 0) ts)) / rat_of_nat (length ts)) * 100
      else 0)"
  "PortfolioSummary.bestTrade (getPortfolioSummary ts) =
     (case map netPL ts of [] \<Rightarrow> 0 | x # xs \<Rightarrow> Math_max x xs)"
  "PortfolioSummary.worstTrade (getPortfolioSummary ts) =
     (case map netPL ts of [] \<Rightarrow> 0 | x # xs \<Rightarrow> Math_min x xs)"
  unfolding getPortfolioSummary_def Let_def by simp_all

lemma winRate_formula_bounds:
  fixes w n :: nat
  assumes "w \<le> n" and "0 < n"
  shows "0 \<le> rat_of_nat w / rat_of_nat n * 100"
    and "rat_of_nat w / rat_of_nat n * 100 \<le> 100"
    and "(rat_of_nat w / rat_of_nat n * 100 = 0) = (w = 0)"
proof -
  show "0 \<le> rat_of_nat w / rat_of_nat n * 100" by simp
  have "rat_of_nat w \<le> rat_of_nat n" using assms(1) by simp
  then have "rat_of_nat w / rat_of_nat n \<le> 1" using assms(2) by (simp add: divide_le_eq)
  then have "rat_of_nat w / rat_of_nat n * 100 \<le> 1 * 100"
    by (rule mult_right_mono) simp
  then show "rat_of_nat w / rat_of_nat n * 100 \<le> 100" by simp
  show "(rat_of_nat w / rat_of_nat n * 100 = 0) = (w = 0)" using assms(2) by simp
qed

lemma calculateTradeStats_best_worst:
  assumes "ts \<noteq> []"
  shows "TradeStats.bestTrade (calculateTradeStats ts) = Max (netPL ` set ts)"
    and "TradeStats.worstTrade (calculateTradeStats ts) = Min (netPL ` set ts)"
proof -
  from assms obtain a list where ts: "ts = a # list" by (cases ts) auto
  show "TradeStats.bestTrade (calculateTradeStats ts) = Max (netPL ` set ts)"
    by (simp add: ts calculateTradeStats_fields Math_max_Max)
  show "TradeStats.worstTrade (calculateTradeStats ts) = Min (netPL ` set ts)"
    by (simp add: ts calculateTradeStats_fields Math_min_Min)
qed

lemma getPortfolioSummary_best_worst:
  assumes "ts \<noteq> []"
  shows "PortfolioSummary.bestTrade (getPortfolioSummary ts) = Max (netPL ` set ts)"
    and "PortfolioSummary.worstTrade (getPortfolioSummary ts) = Min (netPL ` set ts)"
proof -
  from assms obtain a list where ts: "ts = a # list" by (cases ts) auto
  show "PortfolioSummary.bestTrade (getPortfolioSummary ts) = Max (netPL ` set ts)"
    by (simp add: ts getPortfolioSummary_fields Math_max_Max)
  show "PortfolioSummary.worstTrade (getPortfolioSummary ts) = Min (netPL ` set ts)"
    by (simp add: ts getPortfolioSummary_fields Math_min_Min)
qed

lemma best_worst_empty:
  "TradeStats.bestTrade (calculateTradeStats []) = 0"
  "TradeStats.worstTrade (calculateTradeStats []) = 0"
  "PortfolioSummary.bestTrade (getPortfolioSummary []) = 0"
  "PortfolioSummary.worstTrade (getPortfolioSummary []) = 0"
  by (simp_all add: calculateTradeStats_fields getPortfolioSummary_fields)

subsection \<open>Daily statistics\<close>

lemma byDateDescending_total: "byDateDescending a b \<or> byDateDescending b a"
  by (auto simp: byDateDescending_def)

lemma byDateDescending_trans:
  "byDateDescending a b \<Longrightarrow> byDateDescending b c \<Longrightarrow> byDateDescending a c"
  by (auto simp: byDateDescending_def)

lemma calculateDailyStats_fields:
  "streak (calculateDailyStats today allTrades prev) =
     countStreak 0 (arraySort byDateDescending allTrades)"
  "currentDayTrades (calculateDailyStats today allTrades prev) =
     length (filter (\<lambda>trade. date trade = today) allTrades)"
  "currentDayPnL (calculateDailyStats today allTrades prev) =
     foldl (\<lambda>sum trade. sum + netPL trade) 0 (filter (\<lambda>trade. date trade = today) allTrades)"
  unfolding calculateDailyStats_def Let_def by simp_all

subsection \<open>The collection of targets\<close>

lemma applyUpdates_keys:
  "targetId (applyUpdates u now doc) = targetId doc"
  "userId (applyUpdates u now doc) = userId doc"
  "year (applyUpdates u now doc) = year doc"
  "MonthlyTarget.month (applyUpdates u now doc) = MonthlyTarget.month doc"
  "pnlTarget (applyUpdates u now doc) = pnlTarget doc"
  "tradesTarget (applyUpdates u now doc) = tradesTarget doc"
  "winRateTarget (applyUpdates u now doc) = winRateTarget doc"
  by (simp_all add: applyUpdates_def)

lemma applyUpdates_progress:
  "currentPnL (applyUpdates u now doc) = newCurrentPnL u"
  "currentTrades (applyUpdates u now doc) = newCurrentTrades u"
  "currentWinRate (applyUpdates u now doc) = newCurrentWinRate u"
  "isCompleted (applyUpdates u now doc) = newIsCompleted u"
  "completedAt (applyUpdates u now doc) =
     (case newCompletedAt u of Some stamp \<Rightarrow> Some stamp | None \<Rightarrow> completedAt doc)"
  by (simp_all add: applyUpdates_def)

lemma getMonthlyTarget_Some:
  assumes "getMonthlyTarget db uid y m = Some t"
  obtains rest where
    "filter (\<lambda>t. userId t = uid \<and> year t = y \<and> MonthlyTarget.month t = m) db = t # rest"
  using assms unfolding getMonthlyTarget_def by (auto split: list.splits)

lemma getMonthlyTarget_updateMonthlyTarget:
  assumes "getMonthlyTarget db uid y m = Some t"
  shows "getMonthlyTarget (updateMonthlyTarget (targetId t) u now db) uid y m
           = Some (applyUpdates u now t)"
proof -
  let ?P = "\<lambda>t. userId t = uid \<and> year t = y \<and> MonthlyTarget.month t = m"
  let ?f = "\<lambda>doc. if targetId doc = targetId t then applyUpdates u now doc else doc"
  from assms obtain rest where r: "filter ?P db = t # rest" by (rule getMonthlyTarget_Some)
  have "?P \<circ> ?f = ?P" by (auto simp: fun_eq_iff applyUpdates_keys)
  then have "filter ?P (map ?f db) = map ?f (filter ?P db)" by (simp add: filter_map)
  also have "\<dots> = applyUpdates u now t # map ?f rest" by (simp add: r)
  finally show ?thesis by (simp add: getMonthlyTarget_def updateMonthlyTarget_def)
qed

lemma progress_stored:
  assumes "getMonthlyTarget db uid y m = Some t"
  shows "getMonthlyTarget (updateMonthlyTargetProgress tz now uid y m allTrades db) uid y m =
     Some (applyUpdates
        (progressUpdates t
           (calculateTradeStats (filterTradesByDateRange allTrades
               (fst (monthRange tz y m)) (snd (monthRange tz y m)))) now) now t)"
  using getMonthlyTarget_updateMonthlyTarget[OF assms]
  by (simp add: updateMonthlyTargetProgress_def assms Let_def)

lemma progressUpdates_fields:
  "newCurrentPnL (progressUpdates t s now) = totalPnL s"
  "newCurrentTrades (progressUpdates t s now) = rat_of_nat (TradeStats.totalTrades s)"
  "newCurrentWinRate (progressUpdates t s now) = TradeStats.winRate s"
  "newIsCompleted (progressUpdates t s now) =
     (totalPnL s \<ge> pnlTarget t \<and> rat_of_nat (TradeStats.totalTrades s) \<ge> tradesTarget t \<and>
      TradeStats.winRate s \<ge> winRateTarget t)"
  "newCompletedAt (progressUpdates t s now) =
     (if newIsCompleted (progressUpdates t s now) \<and> \<not> isCompleted t then Some now else None)"
  unfolding progressUpdates_def Let_def by simp_all

lemma monthRange_march:
  "monthRange 0 2025 3 = ((2025, 3, 1), (2025, 3, 31))"
  by (simp add: monthRange_def isoDateOfLocal_def daysInMonth_def)

subsection \<open>Rounding and the pair table\<close>

lemma floor_rat_divide_numeral:
  "\<lfloor>numeral a / numeral b :: rat\<rfloor> = numeral a div numeral b"
  "\<lfloor>- (numeral a / numeral b) :: rat\<rfloor> = - numeral a div numeral b"
  by (metis floor_divide_of_int_eq of_int_numeral,
      metis divide_minus_left floor_divide_of_int_eq of_int_neg_numeral of_int_numeral)

lemma round_half_near:
  fixes y :: rat
  shows "\<bar>of_int \<lfloor>y + 1/2\<rfloor> - y\<bar> \<le> 1/2"
proof -
  show ?thesis by linarith
qed

lemma toFixed_near: "\<bar>toFixed n x - x\<bar> \<le> 1 / (2 * 10 ^ n)"
proof -
  have pos: "(0::rat) < 10 ^ n" by simp
  have scale: "\<bar>of_int k / 10 ^ n - z\<bar> = \<bar>of_int k - z * 10 ^ n\<bar> / 10 ^ n" for k :: int and z :: rat
  proof -
    have "of_int k / 10 ^ n - z = (of_int k - z * 10 ^ n) / 10 ^ n"
      by (simp add: diff_divide_distrib)
    then show ?thesis by (simp add: abs_divide del: of_int_diff)
  qed
  show ?thesis
  proof (cases "x < 0")
    case True
    have "\<bar>toFixed n x - x\<bar> = \<bar>of_int \<lfloor>(- x) * 10 ^ n + 1/2\<rfloor> / 10 ^ n - (- x)\<bar>"
      using True by (simp add: toFixed_def abs_minus_commute)
    also have "\<dots> = \<bar>of_int \<lfloor>(- x) * 10 ^ n + 1/2\<rfloor> - (- x) * 10 ^ n\<bar> / 10 ^ n"
      by (rule scale)
    also have "\<dots> \<le> (1/2) / 10 ^ n"
      using round_half_near[of "(- x) * 10 ^ n"] pos by (simp only: divide_right_mono less_imp_le)
    finally show ?thesis by simp
  next
    case False
    have "\<bar>toFixed n x - x\<bar> = \<bar>of_int \<lfloor>x * 10 ^ n + 1/2\<rfloor> / 10 ^ n - x\<bar>"
      using False by (simp add: toFixed_def)
    also have "\<dots> = \<bar>of_int \<lfloor>x * 10 ^ n + 1/2\<rfloor> - x * 10 ^ n\<bar> / 10 ^ n"
      by (rule scale)
    also have "\<dots> \<le> (1/2) / 10 ^ n"
      using round_half_near[of "x * 10 ^ n"] pos by (simp only: divide_right_mono less_imp_le)
    finally show ?thesis by simp
  qed
qed

lemma toFixed_multiple: "\<exists>k::int. toFixed n x = of_int k / 10 ^ n"
proof (cases "x < 0")
  case True
  then have "toFixed n x = of_int (- \<lfloor>(- x) * 10 ^ n + 1/2\<rfloor>) / 10 ^ n"
    by (simp add: toFixed_def)
  then show ?thesis by blast
next
  case False
  then have "toFixed n x = of_int \<lfloor>x * 10 ^ n + 1/2\<rfloor> / 10 ^ n"
    by (simp add: toFixed_def)
  then show ?thesis by blast
qed

lemma pairOptions_pipValue_pos:
  assumes "List.find (\<lambda>p. fst p = name) pairOptions = Some (v, l, pv)"
  shows "0 < pv"
proof -
  from assms have "(v, l, pv) \<in> set pairOptions"
    by (auto simp: find_Some_iff)
  then show ?thesis by (auto simp: pairOptions_def)
qed

lemma find_pairOptions_None:
  "(List.find (\<lambda>p. fst p = name) pairOptions = None) = (name \<notin> fst ` set pairOptions)"
  by (force simp: find_None_iff)

lemma falsy_text: "x \<in> {Blank, NotNumeric, Numeric 0} \<Longrightarrow> \<not> truthy (parseFloat x)"
  by auto

lemma calculatePositionSize_guard:
  "\<not> truthy (parseFloat (accountBalance fd)) \<or>
   \<not> truthy (parseFloat (riskPercentage fd)) \<or>
   \<not> truthy (parseFloat (stopLossPips fd)) \<or>
   List.find (\<lambda>p. fst p = pair fd) pairOptions = None
   \<Longrightarrow> calculatePositionSize fd results = results"
  unfolding calculatePositionSize_def Let_def by (simp only: if_True)

lemma calculatePositionSize_valid:
  assumes "accountBalance fd = Numeric b" and "riskPercentage fd = Numeric r"
    and "stopLossPips fd = Numeric s" and "b \<noteq> 0" and "r \<noteq> 0" and "s \<noteq> 0"
    and "List.find (\<lambda>p. fst p = pair fd) pairOptions = Some (v, l, pv)"
  shows "calculatePositionSize fd results =
     Some \<lparr> lotSize = toFixed 4 (b * r / 100 / (s * pv)),
            riskAmount = toFixed 2 (b * r / 100),
            potentialProfit =
              (case takeProfitPips fd of
                 Numeric tp \<Rightarrow>
                   if tp \<noteq> 0 \<and> tp * pv * (b * r / 100 / (s * pv)) \<noteq> 0
                   then Some (toFixed 2 (tp * pv * (b * r / 100 / (s * pv)))) else None
               | _ \<Rightarrow> None),
            pipValue = pv \<rparr>"
  using assms unfolding calculatePositionSize_def Let_def
  by (cases "takeProfitPips fd") simp_all

subsection \<open>Grouping by month\<close>

lemma map_of_pushTo:
  "map_of (pushTo k t g) key =
     (if key = k then Some ((case map_of g k of None \<Rightarrow> [] | Some xs \<Rightarrow> xs) @ [t])
      else map_of g key)"
  by (induction g) auto

lemma map_of_grouped:
  "map_of (foldl (\<lambda>grouped trade. pushTo (kf trade) trade grouped) g ts) key =
     (case map_of g key of
        None \<Rightarrow> (if filter (\<lambda>t. kf t = key) ts = [] then None
                  else Some (filter (\<lambda>t. kf t = key) ts))
      | Some xs \<Rightarrow> Some (xs @ filter (\<lambda>t. kf t = key) ts))"
proof (induction ts arbitrary: g)
  case Nil
  then show ?case by (simp split: option.splits)
next
  case (Cons t ts)
  show ?case
    by (simp add: Cons.IH map_of_pushTo split: option.splits)
qed

lemma groupTradesByMonth_lookup:
  "(case map_of (groupTradesByMonth tz ts) key of Some xs \<Rightarrow> xs | None \<Rightarrow> []) =
     filter (\<lambda>t. tradeMonthKey tz t = key) ts"
  unfolding groupTradesByMonth_def by (simp add: map_of_grouped)

lemma breakdownEntry_fields:
  "MonthlyBreakdownEntry.month (breakdownEntry tz (groupTradesByMonth tz ts) start m) = m"
  "trades (breakdownEntry tz (groupTradesByMonth tz ts) start m) =
     length (filter (\<lambda>t. tradeMonthKey tz t = (yearOf (localDate tz start), m)) ts)"
  "pnl (breakdownEntry tz (groupTradesByMonth tz ts) start m) =
     totalPnL (calculateTradeStats
       (filter (\<lambda>t. tradeMonthKey tz t = (yearOf (localDate tz start), m)) ts))"
  "MonthlyBreakdownEntry.winRate (breakdownEntry tz (groupTradesByMonth tz ts) start m) =
     TradeStats.winRate (calculateTradeStats
       (filter (\<lambda>t. tradeMonthKey tz t = (yearOf (localDate tz start), m)) ts))"
  unfolding breakdownEntry_def Let_def getMonthKey_def
  by (simp_all add: groupTradesByMonth_lookup calculateTradeStats_fields)

lemma monthlyBreakdown_yearly:
  "monthlyBreakdown (generateHistoricalAnalytics tz allTrades Yearly start e) =
     Some (map (breakdownEntry tz
        (groupTradesByMonth tz (filterTradesByDateRange allTrades start e)) start) [1..<13])"
  unfolding generateHistoricalAnalytics_def Let_def by simp

lemma tradeMonthKey_east:
  "0 \<le> tz \<Longrightarrow> tradeMonthKey tz t = (yearOf (date t), monthOf (date t))"
  by (simp add: tradeMonthKey_def localDate_def getMonthKey_def Let_def)

lemma months_1_12: "[1..<13] = [1, 2, 3, 4, 5, 6, 7, 8, 9, 10, 11, 12::nat]"
  by (simp add: upt_rec)

section \<open>Monthly targets: completion\<close>

text \<open>
  Claim C1: when a target exists for the user, year and month, the recomputation stores the
  progress of the month's trades (the trades that \<open>filterTradesByDateRange\<close> keeps for
  the month's range) and leaves the three goals as they were; afterwards the stored
  \<open>isCompleted\<close> is true exactly when \<open>currentPnL \<ge> pnlTarget\<close>,
  \<open>currentTrades \<ge> tradesTarget\<close> and \<open>currentWinRate \<ge> winRateTarget\<close> all hold. So
  a target that meets two of the three stays incomplete.
\<close>

theorem updateMonthlyTargetProgress_isCompleted:
  assumes "getMonthlyTarget db uid y m = Some t"
  shows "\<exists>t'. getMonthlyTarget (updateMonthlyTargetProgress tz now uid y m allTrades db) uid y m = Some t' \<and>
     pnlTarget t' = pnlTarget t \<and> tradesTarget t' = tradesTarget t \<and>
     winRateTarget t' = winRateTarget t \<and>
     currentPnL t' = totalPnL (calculateTradeStats (filterTradesByDateRange allTrades
               (fst (monthRange tz y m)) (snd (monthRange tz y m)))) \<and>
     currentTrades t' = rat_of_nat (TradeStats.totalTrades (calculateTradeStats
               (filterTradesByDateRange allTrades
               (fst (monthRange tz y m)) (snd (monthRange tz y m))))) \<and>
     currentWinRate t' = TradeStats.winRate (calculateTradeStats (filterTradesByDateRange allTrades
               (fst (monthRange tz y m)) (snd (monthRange tz y m)))) \<and>
     isCompleted t' = (currentPnL t' \<ge> pnlTarget t' \<and> currentTrades t' \<ge> tradesTarget t' \<and>
                       currentWinRate t' \<ge> winRateTarget t')"
  using progress_stored[OF assms, of tz now allTrades]
  by (simp add: applyUpdates_keys applyUpdates_progress progressUpdates_fields)

text \<open>
  An instance: the goals are 100 of profit, 2 trades and a win rate of 60. The three
  trades of March make 130 in 3 trades with one winner (the April trade is outside the
  month): two goals are met, the win rate of 33.3 is not, and the target stays incomplete.
\<close>

theorem updateMonthlyTargetProgress_isCompleted_witness:
  "getMonthlyTarget [sampleTarget] ''u1'' 2025 3 = Some sampleTarget \<and>
   (\<exists>t'. getMonthlyTarget
       (updateMonthlyTargetProgress 0 1000 ''u1'' 2025 3
          [sampleTrade ''a'' (2025, 3, 3) 150, sampleTrade ''b'' (2025, 3, 4) (- 10),
           sampleTrade ''c'' (2025, 3, 5) (- 10), sampleTrade ''d'' (2025, 4, 1) 500]
          [sampleTarget]) ''u1'' 2025 3 = Some t' \<and>
      currentPnL t' = 130 \<and> pnlTarget t' = 100 \<and>
      currentTrades t' = 3 \<and> tradesTarget t' = 2 \<and>
      currentWinRate t' = 100 / 3 \<and> winRateTarget t' = 60 \<and>
      isCompleted t' = False)"
proof -
  let ?ts = "[sampleTrade ''a'' (2025, 3, 3) 150, sampleTrade ''b'' (2025, 3, 4) (- 10),
           sampleTrade ''c'' (2025, 3, 5) (- 10), sampleTrade ''d'' (2025, 4, 1) 500]"
  have h: "getMonthlyTarget [sampleTarget] ''u1'' 2025 3 = Some sampleTarget"
    by (simp add: getMonthlyTarget_def sampleTarget_def)
  have f: "filterTradesByDateRange ?ts (fst (monthRange 0 2025 3)) (snd (monthRange 0 2025 3)) =
      [sampleTrade ''a'' (2025, 3, 3) 150, sampleTrade ''b'' (2025, 3, 4) (- 10),
       sampleTrade ''c'' (2025, 3, 5) (- 10)]"
    by (simp add: monthRange_march filterTradesByDateRange_def)
  from updateMonthlyTargetProgress_isCompleted[OF h, of 0 1000 ?ts]
  obtain t' where
    t': "getMonthlyTarget (updateMonthlyTargetProgress 0 1000 ''u1'' 2025 3 ?ts [sampleTarget])
           ''u1'' 2025 3 = Some t'"
    and g: "pnlTarget t' = pnlTarget sampleTarget" "tradesTarget t' = tradesTarget sampleTarget"
      "winRateTarget t' = winRateTarget sampleTarget"
    and c: "currentPnL t' = totalPnL (calculateTradeStats (filterTradesByDateRange ?ts
               (fst (monthRange 0 2025 3)) (snd (monthRange 0 2025 3))))"
      "currentTrades t' = rat_of_nat (TradeStats.totalTrades (calculateTradeStats
               (filterTradesByDateRange ?ts
               (fst (monthRange 0 2025 3)) (snd (monthRange 0 2025 3)))))"
      "currentWinRate t' = TradeStats.winRate (calculateTradeStats (filterTradesByDateRange ?ts
               (fst (monthRange 0 2025 3)) (snd (monthRange 0 2025 3))))"
    and i: "isCompleted t' = (currentPnL t' \<ge> pnlTarget t' \<and> currentTrades t' \<ge> tradesTarget t' \<and>
                       currentWinRate t' \<ge> winRateTarget t')"
    by blast
  have g': "pnlTarget t' = 100" "tradesTarget t' = 2" "winRateTarget t' = 60"
    using g by (simp_all add: sampleTarget_def)
  have c': "currentPnL t' = 130" "currentTrades t' = 3" "currentWinRate t' = 100 / 3"
    using c unfolding f by (simp_all add: calculateTradeStats_fields)
  have "isCompleted t' = False" using i by (simp add: g' c')
  with t' g' c' h show ?thesis by blast
qed

section \<open>Monthly targets: the completion date\<close>

text \<open>
  The claim C2 says that a recomputation never changes a completion date that is already
  stored. A run of three recomputations shows otherwise. The first finds the goals met and
  stores the date 1000. A trade is deleted; the second finds the goals missed, clears
  \<open>isCompleted\<close> and keeps the date 1000. A trade is added; the third finds the goals
  met while the stored \<open>isCompleted\<close> is false, and overwrites the date with 3000.
\<close>

theorem completedAt_rewritten_counterexample:
  "map completedAt
     (updateMonthlyTargetProgress 0 1000 ''u1'' 2025 3
        [sampleTrade ''a'' (2025, 3, 3) 150, sampleTrade ''b'' (2025, 3, 4) 20]
        [sampleTarget]) = [Some 1000] \<and>
   map isCompleted
     (updateMonthlyTargetProgress 0 2000 ''u1'' 2025 3
        [sampleTrade ''a'' (2025, 3, 3) 150]
        (updateMonthlyTargetProgress 0 1000 ''u1'' 2025 3
          [sampleTrade ''a'' (2025, 3, 3) 150, sampleTrade ''b'' (2025, 3, 4) 20]
          [sampleTarget])) = [False] \<and>
   map completedAt
     (updateMonthlyTargetProgress 0 2000 ''u1'' 2025 3
        [sampleTrade ''a'' (2025, 3, 3) 150]
        (updateMonthlyTargetProgress 0 1000 ''u1'' 2025 3
          [sampleTrade ''a'' (2025, 3, 3) 150, sampleTrade ''b'' (2025, 3, 4) 20]
          [sampleTarget])) = [Some 1000] \<and>
   map completedAt
     (updateMonthlyTargetProgress 0 3000 ''u1'' 2025 3
        [sampleTrade ''a'' (2025, 3, 3) 150, sampleTrade ''c'' (2025, 3, 6) 30]
        (updateMonthlyTargetProgress 0 2000 ''u1'' 2025 3
          [sampleTrade ''a'' (2025, 3, 3) 150]
          (updateMonthlyTargetProgress 0 1000 ''u1'' 2025 3
            [sampleTrade ''a'' (2025, 3, 3) 150, sampleTrade ''b'' (2025, 3, 4) 20]
            [sampleTarget]))) = [Some 3000]"
  by (simp add: updateMonthlyTargetProgress_def getMonthlyTarget_def sampleTarget_def
      monthRange_march filterTradesByDateRange_def calculateTradeStats_fields
      progressUpdates_def updateMonthlyTarget_def applyUpdates_def Let_def)

text \<open>
  Claim C2, amended: a recomputation never removes a stored completion date. It writes
  the date only when the recomputed \<open>isCompleted\<close> is true and the stored one was false,
  and then it writes the current time, also over a date stored earlier; in every other
  case the date stays as it was, even when the recomputed progress misses the goals.
\<close>

theorem updateMonthlyTargetProgress_completedAt:
  assumes "getMonthlyTarget db uid y m = Some t"
  shows "\<exists>t'. getMonthlyTarget (updateMonthlyTargetProgress tz now uid y m allTrades db) uid y m = Some t' \<and>
     completedAt t' = (if isCompleted t' \<and> \<not> isCompleted t then Some now else completedAt t) \<and>
     (completedAt t' = None) = (completedAt t = None \<and> \<not> (isCompleted t' \<and> \<not> isCompleted t))"
  using progress_stored[OF assms, of tz now allTrades]
  by (simp add: applyUpdates_progress progressUpdates_fields)

theorem updateMonthlyTargetProgress_completedAt_witness:
  "getMonthlyTarget [sampleTarget\<lparr> isCompleted := True, completedAt := Some 1000 \<rparr>] ''u1'' 2025 3
     = Some (sampleTarget\<lparr> isCompleted := True, completedAt := Some 1000 \<rparr>) \<and>
   (\<exists>t'. getMonthlyTarget
       (updateMonthlyTargetProgress 0 2000 ''u1'' 2025 3 []
          [sampleTarget\<lparr> isCompleted := True, completedAt := Some 1000 \<rparr>]) ''u1'' 2025 3 = Some t' \<and>
      isCompleted t' = False \<and> completedAt t' = Some 1000)"
proof -
  let ?t = "sampleTarget\<lparr> isCompleted := True, completedAt := Some 1000 \<rparr>"
  have h: "getMonthlyTarget [?t] ''u1'' 2025 3 = Some ?t"
    by (simp add: getMonthlyTarget_def sampleTarget_def)
  from updateMonthlyTargetProgress_completedAt[OF h, of 0 2000 "[]"]
  obtain t' where
    t': "getMonthlyTarget (updateMonthlyTargetProgress 0 2000 ''u1'' 2025 3 [] [?t])
           ''u1'' 2025 3 = Some t'"
    and c: "completedAt t' = (if isCompleted t' \<and> \<not> isCompleted ?t then Some 2000 else completedAt ?t)"
    by blast
  have c': "completedAt t' = Some 1000" using c by simp
  have "updateMonthlyTargetProgress 0 2000 ''u1'' 2025 3 [] [?t] =
      [?t\<lparr> isCompleted := False, updatedAt := 2000 \<rparr>]"
    by (simp add: updateMonthlyTargetProgress_def getMonthlyTarget_def sampleTarget_def
      filterTradesByDateRange_def calculateTradeStats_fields
      progressUpdates_def updateMonthlyTarget_def applyUpdates_def Let_def)
  with t' have "isCompleted t' = False"
    by (auto simp: getMonthlyTarget_def sampleTarget_def)
  with t' c' h show ?thesis by blast
qed

section \<open>Position size: inputs that are rejected\<close>

text \<open>
  The claim C3 says that a negative input is reported as invalid and yields no result.
  The check of the inputs is a truth test: it stops on a missing (\<open>NaN\<close>) or zero number
  and on an unknown pair, and lets a negative number through. A balance of -10000 yields a
  position size of -40 and a risk amount of -200.
\<close>

theorem calculatePositionSize_negative_counterexample:
  "calculatePositionSize
     \<lparr> accountBalance = Numeric (- 10000), riskPercentage = Numeric 2,
       stopLossPips = Numeric 50, pair = ''XAUUSD'', takeProfitPips = Blank \<rparr> None
   = Some \<lparr> lotSize = - 40, riskAmount = - 200, potentialProfit = None, pipValue = 1/10 \<rparr>"
  unfolding calculatePositionSize_def Let_def
  by (simp add: pairOptions_def toFixed_def floor_rat_divide_numeral)

text \<open>
  Claim C3, amended: when the account balance, the risk percentage or the stop-loss
  distance is missing or zero, or the pair is not in the table, the computation does not
  proceed and produces no result: the function returns at once and the \<open>results\<close> state
  is what it was before the call (empty, or the result of an earlier calculation). The
  function has no means of reporting the condition. Negative inputs are not covered.
\<close>

theorem calculatePositionSize_rejects:
  assumes "accountBalance fd \<in> {Blank, NotNumeric, Numeric 0} \<or>
           riskPercentage fd \<in> {Blank, NotNumeric, Numeric 0} \<or>
           stopLossPips fd \<in> {Blank, NotNumeric, Numeric 0} \<or>
           pair fd \<notin> fst ` set pairOptions"
  shows "calculatePositionSize fd results = results"
proof (rule calculatePositionSize_guard)
  from assms consider
      "accountBalance fd \<in> {Blank, NotNumeric, Numeric 0}"
    | "riskPercentage fd \<in> {Blank, NotNumeric, Numeric 0}"
    | "stopLossPips fd \<in> {Blank, NotNumeric, Numeric 0}"
    | "pair fd \<notin> fst ` set pairOptions"
    by blast
  then show "\<not> truthy (parseFloat (accountBalance fd)) \<or>
        \<not> truthy (parseFloat (riskPercentage fd)) \<or>
        \<not> truthy (parseFloat (stopLossPips fd)) \<or>
        List.find (\<lambda>p. fst p = pair fd) pairOptions = None"
  proof cases
    case 1
    then show ?thesis by (simp only: falsy_text simp_thms)
  next
    case 2
    then show ?thesis by (simp only: falsy_text simp_thms)
  next
    case 3
    then show ?thesis by (simp only: falsy_text simp_thms)
  next
    case 4
    then have "List.find (\<lambda>p. fst p = pair fd) pairOptions = None"
      by (simp only: find_pairOptions_None simp_thms)
    then show ?thesis by (simp only: simp_thms)
  qed
qed

theorem calculatePositionSize_rejects_witness:
  "calculatePositionSize
     \<lparr> accountBalance = Blank, riskPercentage = Numeric 2,
       stopLossPips = Numeric 50, pair = ''XAUUSD'', takeProfitPips = Blank \<rparr>
     (Some \<lparr> lotSize = 40, riskAmount = 200, potentialProfit = None, pipValue = 1/10 \<rparr>)
   = Some \<lparr> lotSize = 40, riskAmount = 200, potentialProfit = None, pipValue = 1/10 \<rparr> \<and>
   calculatePositionSize
     \<lparr> accountBalance = Numeric 10000, riskPercentage = Numeric 0,
       stopLossPips = Numeric 50, pair = ''XAUUSD'', takeProfitPips = Blank \<rparr> None = None"
proof -
  have "calculatePositionSize
     \<lparr> accountBalance = Blank, riskPercentage = Numeric 2,
       stopLossPips = Numeric 50, pair = ''XAUUSD'', takeProfitPips = Blank \<rparr>
     (Some \<lparr> lotSize = 40, riskAmount = 200, potentialProfit = None, pipValue = 1/10 \<rparr>)
   = Some \<lparr> lotSize = 40, riskAmount = 200, potentialProfit = None, pipValue = 1/10 \<rparr>"
    by (rule calculatePositionSize_rejects) simp
  moreover have "calculatePositionSize
     \<lparr> accountBalance = Numeric 10000, riskPercentage = Numeric 0,
       stopLossPips = Numeric 50, pair = ''XAUUSD'', takeProfitPips = Blank \<rparr> None = None"
    by (rule calculatePositionSize_rejects) simp
  ultimately show ?thesis by (rule conjI)
qed

section \<open>Position size: the formula and its rounding\<close>

text \<open>
  The claim C4 says that the potential profit is computed whenever a take-profit distance
  is supplied. The code tests the parsed distance for truth, so a distance of \<open>0\<close> counts
  as not supplied: the potential profit is \<open>null\<close>, not \<open>0.00\<close>.
\<close>

theorem calculatePositionSize_zero_takeProfit_counterexample:
  "calculatePositionSize
     \<lparr> accountBalance = Numeric 10000, riskPercentage = Numeric 2,
       stopLossPips = Numeric 50, pair = ''XAUUSD'', takeProfitPips = Numeric 0 \<rparr> None
   = Some \<lparr> lotSize = 40, riskAmount = 200, potentialProfit = None, pipValue = 1/10 \<rparr>"
  unfolding calculatePositionSize_def Let_def
  by (simp add: pairOptions_def toFixed_def floor_rat_divide_numeral)

text \<open>
  Claim C4, amended: for a positive balance, risk percentage and stop-loss distance and a
  pair of the table (whose pip value is positive), the calculator returns
  \<open>riskAmount = balance * riskPercent / 100\<close> rounded to 2 decimals and
  \<open>positionSize = riskAmount / (stopLoss * pipValue)\<close> rounded to 4 decimals, where the
  risk amount under the division is the unrounded one; the potential profit is
  \<open>takeProfit * pipValue * positionSize\<close> with the unrounded position size, rounded to 2
  decimals, when a take-profit distance other than zero is supplied, and absent otherwise.
  Each rounded value is a multiple of its unit and differs from the exact value by half a
  unit at most. The bound \<open>riskPercent \<le> 100\<close> of the claim is not needed.
\<close>

theorem calculatePositionSize_rounds_once:
  assumes "accountBalance fd = Numeric b" and "riskPercentage fd = Numeric r"
    and "stopLossPips fd = Numeric s" and "0 < b" and "0 < r" and "0 < s"
    and "List.find (\<lambda>p. fst p = pair fd) pairOptions = Some (v, l, pv)"
  shows "\<exists>res. calculatePositionSize fd results = Some res \<and>
     0 < pv \<and> pipValue res = pv \<and>
     riskAmount res = toFixed 2 (b * r / 100) \<and>
     lotSize res = toFixed 4 (b * r / 100 / (s * pv)) \<and>
     potentialProfit res =
       (case takeProfitPips fd of
          Numeric tp \<Rightarrow>
            if tp = 0 then None else Some (toFixed 2 (tp * pv * (b * r / 100 / (s * pv))))
        | _ \<Rightarrow> None) \<and>
     \<bar>riskAmount res - b * r / 100\<bar> \<le> 1 / 200 \<and>
     \<bar>lotSize res - b * r / 100 / (s * pv)\<bar> \<le> 1 / 20000 \<and>
     (\<exists>k::int. riskAmount res = of_int k / 100) \<and>
     (\<exists>k::int. lotSize res = of_int k / 10000)"
proof -
  have pv: "0 < pv" using assms(7) by (rule pairOptions_pipValue_pos)
  have nz: "b \<noteq> 0" "r \<noteq> 0" "s \<noteq> 0" using assms(4-6) by simp_all
  have lot: "b * r / 100 / (s * pv) \<noteq> 0" using nz pv by simp
  let ?res = "\<lparr> lotSize = toFixed 4 (b * r / 100 / (s * pv)),
            riskAmount = toFixed 2 (b * r / 100),
            potentialProfit =
              (case takeProfitPips fd of
                 Numeric tp \<Rightarrow>
                   if tp \<noteq> 0 \<and> tp * pv * (b * r / 100 / (s * pv)) \<noteq> 0
                   then Some (toFixed 2 (tp * pv * (b * r / 100 / (s * pv)))) else None
               | _ \<Rightarrow> None),
            pipValue = pv \<rparr>"
  have res: "calculatePositionSize fd results = Some ?res"
    using assms(1-3) nz assms(7) by (rule calculatePositionSize_valid)
  have pp: "potentialProfit ?res =
       (case takeProfitPips fd of
          Numeric tp \<Rightarrow>
            if tp = 0 then None else Some (toFixed 2 (tp * pv * (b * r / 100 / (s * pv))))
        | _ \<Rightarrow> None)"
    using lot pv by (cases "takeProfitPips fd") auto
  have n2: "\<bar>toFixed 2 (b * r / 100) - b * r / 100\<bar> \<le> 1 / 200"
    using toFixed_near[of 2 "b * r / 100"] by simp
  have n4: "\<bar>toFixed 4 (b * r / 100 / (s * pv)) - b * r / 100 / (s * pv)\<bar> \<le> 1 / 20000"
    using toFixed_near[of 4 "b * r / 100 / (s * pv)"] by simp
  have m2: "\<exists>k::int. toFixed 2 (b * r / 100) = of_int k / 100"
    using toFixed_multiple[of 2 "b * r / 100"] by simp
  have m4: "\<exists>k::int. toFixed 4 (b * r / 100 / (s * pv)) = of_int k / 10000"
    using toFixed_multiple[of 4 "b * r / 100 / (s * pv)"] by simp
  show ?thesis
    apply (rule exI[of _ ?res])
    using res pv pp n2 n4 m2 m4 by simp
qed

text \<open>
  The scenario of the claim: a balance of 10000, 2 percent, a stop loss of 50 and a pip
  value of 0.1 give a risk amount of 200.00 and a position size of 40.0000 (and, with a
  take profit of 100, a potential profit of 400.00).
\<close>

theorem calculatePositionSize_rounds_once_witness:
  "calculatePositionSize
     \<lparr> accountBalance = Numeric 10000, riskPercentage = Numeric 2,
       stopLossPips = Numeric 50, pair = ''XAUUSD'', takeProfitPips = Numeric 100 \<rparr> None
   = Some \<lparr> lotSize = 40, riskAmount = 200, potentialProfit = Some 400, pipValue = 1/10 \<rparr>"
proof -
  let ?fd = "\<lparr> accountBalance = Numeric 10000, riskPercentage = Numeric 2,
       stopLossPips = Numeric 50, pair = ''XAUUSD'', takeProfitPips = Numeric 100 \<rparr>"
  have f: "List.find (\<lambda>p. fst p = pair ?fd) pairOptions = Some (''XAUUSD'', ''Gold (XAUUSD)'', 1/10)"
    by (simp add: pairOptions_def)
  from calculatePositionSize_rounds_once[of ?fd 10000 2 50 "''XAUUSD''" "''Gold (XAUUSD)''" "1/10" None, OF _ _ _ _ _ _ f]
  obtain res where r: "calculatePositionSize ?fd None = Some res"
    and p: "pipValue res = 1/10"
    and a: "riskAmount res = toFixed 2 (10000 * 2 / 100)"
    and l: "lotSize res = toFixed 4 (10000 * 2 / 100 / (50 * (1/10)))"
    and t: "potentialProfit res = Some (toFixed 2 (100 * (1/10) * (10000 * 2 / 100 / (50 * (1/10)))))"
    by auto
  have "res = \<lparr> lotSize = 40, riskAmount = 200, potentialProfit = Some 400, pipValue = 1/10 \<rparr>"
    using p a l t by (simp add: toFixed_def floor_rat_divide_numeral)
  with r show ?thesis by simp
qed

section \<open>Maximum drawdown: sign and small inputs\<close>

text \<open>
  The claim C5 says that a single trade always gives a drawdown of \<open>0\<close>. The peak starts
  at \<open>0\<close>, the balance before the first trade, so a single losing trade is a drawdown of
  the size of its loss: a loss of 50 gives 50.
\<close>

theorem calculateMaxDrawdown_single_loss_counterexample:
  "calculateMaxDrawdown [sampleTrade ''t1'' (2025, 3, 1) (- 50)] = 50"
  by (simp add: calculateMaxDrawdown_def arraySort_def drawdownStep_def)

text \<open>
  Claim C5, amended: the maximum drawdown is never negative; it is \<open>0\<close> for the empty
  sequence; for a single trade it is \<open>0\<close> when the trade does not lose and the size of the
  loss when it does.
\<close>

theorem calculateMaxDrawdown_nonneg:
  "0 \<le> calculateMaxDrawdown ts \<and>
   calculateMaxDrawdown [] = 0 \<and>
   calculateMaxDrawdown [t] = max 0 (- netPL t)"
proof -
  have "0 \<le> calculateMaxDrawdown ts"
    by (simp add: calculateMaxDrawdown_def Let_def foldl_drawdown_nonneg)
  moreover have "calculateMaxDrawdown [] = 0"
    by (simp add: calculateMaxDrawdown_def)
  moreover have "calculateMaxDrawdown [t] = max 0 (- netPL t)"
    by (simp add: calculateMaxDrawdown_def arraySort_def drawdownStep_def Let_def max_def)
  ultimately show ?thesis by simp
qed

theorem calculateMaxDrawdown_nonneg_witness:
  "0 \<le> calculateMaxDrawdown [sampleTrade ''t1'' (2025, 3, 1) 40, sampleTrade ''t2'' (2025, 3, 2) (- 15)] \<and>
   calculateMaxDrawdown [] = 0 \<and>
   calculateMaxDrawdown [sampleTrade ''t1'' (2025, 3, 1) 40] = 0"
  using calculateMaxDrawdown_nonneg
    [of "[sampleTrade ''t1'' (2025, 3, 1) 40, sampleTrade ''t2'' (2025, 3, 2) (- 15)]"
        "sampleTrade ''t1'' (2025, 3, 1) 40"]
  by simp

section \<open>Win rate\<close>

text \<open>
  The claim C6 says that the win rate is zero only for the empty set. A set without a
  winning trade has a win rate of zero as well: one losing trade gives \<open>0\<close>.
\<close>

theorem winRate_zero_counterexample:
  "TradeStats.winRate (calculateTradeStats [sampleTrade ''t1'' (2025, 3, 1) (- 50)]) = 0 \<and>
   TradeStats.totalTrades (calculateTradeStats [sampleTrade ''t1'' (2025, 3, 1) (- 50)]) = 1"
  by (simp add: calculateTradeStats_fields)

text \<open>
  Claim C6, amended: the win rate of \<open>calculateTradeStats\<close> (and of
  \<open>getPortfolioSummary\<close>, which computes the same) is \<open>winningTrades / totalTrades * 100\<close>
  with \<open>winningTrades\<close> the number of trades with \<open>netPL > 0\<close>, and \<open>0\<close> for the empty
  set; it lies between 0 and 100; it is zero exactly when there is no winning trade, which
  includes the empty set.
\<close>

theorem winRate_range:
  "TradeStats.winningTrades (calculateTradeStats ts) = length (filter (\<lambda>t. netPL t > 0) ts) \<and>
   TradeStats.totalTrades (calculateTradeStats ts) = length ts \<and>
   TradeStats.winRate (calculateTradeStats ts) =
     (if TradeStats.totalTrades (calculateTradeStats ts) = 0 then 0
      else rat_of_nat (TradeStats.winningTrades (calculateTradeStats ts))
           / rat_of_nat (TradeStats.totalTrades (calculateTradeStats ts)) * 100) \<and>
   0 \<le> TradeStats.winRate (calculateTradeStats ts) \<and>
   TradeStats.winRate (calculateTradeStats ts) \<le> 100 \<and>
   (TradeStats.winRate (calculateTradeStats ts) = 0) =
     (TradeStats.winningTrades (calculateTradeStats ts) = 0) \<and>
   PortfolioSummary.winRate (getPortfolioSummary ts) = TradeStats.winRate (calculateTradeStats ts) \<and>
   PortfolioSummary.winningTrades (getPortfolioSummary ts) = TradeStats.winningTrades (calculateTradeStats ts) \<and>
   PortfolioSummary.totalTrades (getPortfolioSummary ts) = TradeStats.totalTrades (calculateTradeStats ts)"
proof (cases "ts = []")
  case True
  then show ?thesis by (simp add: calculateTradeStats_fields getPortfolioSummary_fields)
next
  case False
  then have n: "0 < length ts" by simp
  have w: "length (filter (\<lambda>t. netPL t > 0) ts) \<le> length ts" by (rule length_filter_le)
  from winRate_formula_bounds[OF w n] n show ?thesis
    by (simp add: calculateTradeStats_fields getPortfolioSummary_fields)
qed

theorem winRate_range_witness:
  "TradeStats.winRate (calculateTradeStats
      [sampleTrade ''a'' (2025, 3, 1) 100, sampleTrade ''b'' (2025, 3, 2) (- 50),
       sampleTrade ''c'' (2025, 3, 3) 200]) = 200 / 3 \<and>
   TradeStats.winRate (calculateTradeStats []) = 0"
proof -
  let ?ts = "[sampleTrade ''a'' (2025, 3, 1) 100, sampleTrade ''b'' (2025, 3, 2) (- 50),
       sampleTrade ''c'' (2025, 3, 3) 200]"
  have "TradeStats.winRate (calculateTradeStats ?ts) = 200 / 3"
    using winRate_range[of ?ts] by simp
  moreover have "TradeStats.winRate (calculateTradeStats []) = 0"
    using winRate_range[of "[]"] by simp
  ultimately show ?thesis by simp
qed

section \<open>Best and worst trade\<close>

text \<open>
  \<open>calculateTradeStats\<close> and \<open>getPortfolioSummary\<close> return the maximum and the minimum
  of \<open>netPL\<close> over a non-empty set and \<open>0\<close> for the empty set (the lemmas
  \<open>calculateTradeStats_best_worst\<close>, \<open>getPortfolioSummary_best_worst\<close> and
  \<open>best_worst_empty\<close> above).

  Claim C7 fails on \<open>calculatePortfolioMetrics\<close>, which passes a literal \<open>0\<close> to
  \<open>Math.max\<close> and \<open>Math.min\<close> along with the trades: the best trade of two losing
  trades (-50 and -20) is \<open>0\<close> where the claim says -20, and the worst trade of two
  winning trades (30 and 70) is \<open>0\<close> where the claim says 30.
\<close>

theorem calculatePortfolioMetrics_clamps_at_zero:
  "PortfolioMetrics.bestTrade (calculatePortfolioMetrics
     [\<lparr> status = CLOSED, netPnl = Some (- 50), quantity = 1, entryPrice = 100, fees = 0 \<rparr>,
      \<lparr> status = CLOSED, netPnl = Some (- 20), quantity = 1, entryPrice = 100, fees = 0 \<rparr>]) = 0 \<and>
   PortfolioMetrics.worstTrade (calculatePortfolioMetrics
     [\<lparr> status = CLOSED, netPnl = Some 30, quantity = 1, entryPrice = 100, fees = 0 \<rparr>,
      \<lparr> status = CLOSED, netPnl = Some 70, quantity = 1, entryPrice = 100, fees = 0 \<rparr>]) = 0"
  unfolding calculatePortfolioMetrics_def Let_def by (simp add: netPnlOrZero_def)

section \<open>Win streak\<close>

text \<open>
  Claim C8: the streak that \<open>calculateDailyStats\<close> stores is the number of trades
  with \<open>netPL > 0\<close> at the start of the trades sorted by date, most recent first, up to
  the first trade with \<open>netPL \<le> 0\<close>; the sorted array holds the same trades as the
  input, in descending order of date.
\<close>

theorem calculateDailyStats_streak:
  "streak (calculateDailyStats today allTrades prev) =
     length (takeWhile (\<lambda>t. netPL t > 0) (arraySort byDateDescending allTrades)) \<and>
   mset (arraySort byDateDescending allTrades) = mset allTrades \<and>
   sorted_wrt (\<lambda>a b. date b \<le> date a) (arraySort byDateDescending allTrades)"
proof -
  have "sorted_wrt byDateDescending (arraySort byDateDescending allTrades)"
    using byDateDescending_total byDateDescending_trans by (rule sorted_wrt_arraySort)
  then have "sorted_wrt (\<lambda>a b. date b \<le> date a) (arraySort byDateDescending allTrades)"
    by (simp add: byDateDescending_def[abs_def])
  then show ?thesis
    by (simp add: calculateDailyStats_fields countStreak_takeWhile mset_arraySort)
qed

text \<open>
  The scenario of the claim, with the trades given out of order: most recent first they
  are +10, +5, -3, +20 and the streak is 2. A most recent trade that breaks even ends the
  streak at once.
\<close>

theorem calculateDailyStats_streak_witness:
  "streak (calculateDailyStats (2025, 3, 4)
     [sampleTrade ''c'' (2025, 3, 2) (- 3), sampleTrade ''a'' (2025, 3, 4) 10,
      sampleTrade ''d'' (2025, 3, 1) 20, sampleTrade ''b'' (2025, 3, 3) 5]
     \<lparr> dailyPnLTarget = 100, dailyTradesTarget = 5, currentDayPnL = 0,
       currentDayTrades = 0, streak = 0 \<rparr>) = 2 \<and>
   streak (calculateDailyStats (2025, 3, 4)
     [sampleTrade ''a'' (2025, 3, 4) 0, sampleTrade ''b'' (2025, 3, 3) 5]
     \<lparr> dailyPnLTarget = 100, dailyTradesTarget = 5, currentDayPnL = 0,
       currentDayTrades = 0, streak = 0 \<rparr>) = 0"
proof -
  let ?ts = "[sampleTrade ''c'' (2025, 3, 2) (- 3), sampleTrade ''a'' (2025, 3, 4) 10,
      sampleTrade ''d'' (2025, 3, 1) 20, sampleTrade ''b'' (2025, 3, 3) 5]"
  let ?us = "[sampleTrade ''a'' (2025, 3, 4) 0, sampleTrade ''b'' (2025, 3, 3) 5]"
  let ?p = "\<lparr> dailyPnLTarget = 100, dailyTradesTarget = 5, currentDayPnL = 0,
       currentDayTrades = 0, streak = 0 \<rparr>"
  have s: "arraySort byDateDescending ?ts =
      [sampleTrade ''a'' (2025, 3, 4) 10, sampleTrade ''b'' (2025, 3, 3) 5,
       sampleTrade ''c'' (2025, 3, 2) (- 3), sampleTrade ''d'' (2025, 3, 1) 20]"
    by (simp add: arraySort_def byDateDescending_def)
  have u: "arraySort byDateDescending ?us = ?us"
    by (simp add: arraySort_def byDateDescending_def)
  have "streak (calculateDailyStats (2025, 3, 4) ?ts ?p) =
      length (takeWhile (\<lambda>t. netPL t > 0) (arraySort byDateDescending ?ts))"
    by (rule conjunct1[OF calculateDailyStats_streak])
  also have "\<dots> = 2" unfolding s by simp
  finally have first: "streak (calculateDailyStats (2025, 3, 4) ?ts ?p) = 2" .
  have "streak (calculateDailyStats (2025, 3, 4) ?us ?p) =
      length (takeWhile (\<lambda>t. netPL t > 0) (arraySort byDateDescending ?us))"
    by (rule conjunct1[OF calculateDailyStats_streak])
  also have "\<dots> = 0" unfolding u by simp
  finally have second: "streak (calculateDailyStats (2025, 3, 4) ?us ?p) = 0" .
  from first second show ?thesis by (rule conjI)
qed

section \<open>Monthly breakdown of the yearly report\<close>

text \<open>
  For the yearly timeframe the report has twelve entries, for the months 1 to 12, each
  with the statistics of its group of trades, zero when the group is absent. On a host at
  or east of UTC the groups are the calendar months of the start date's year.
\<close>

lemma monthlyBreakdown_east_of_utc:
  assumes "0 \<le> tz"
  shows "\<exists>entries.
     monthlyBreakdown (generateHistoricalAnalytics tz allTrades Yearly start e) = Some entries \<and>
     length entries = 12 \<and>
     (\<forall>i<12. MonthlyBreakdownEntry.month (entries ! i) = i + 1 \<and>
        trades (entries ! i) =
          length (filter (\<lambda>t. yearOf (date t) = yearOf start \<and> monthOf (date t) = i + 1)
                    (filterTradesByDateRange allTrades start e)) \<and>
        (filter (\<lambda>t. yearOf (date t) = yearOf start \<and> monthOf (date t) = i + 1)
                    (filterTradesByDateRange allTrades start e) = [] \<longrightarrow>
           trades (entries ! i) = 0 \<and> pnl (entries ! i) = 0 \<and>
           MonthlyBreakdownEntry.winRate (entries ! i) = 0))"
proof -
  let ?fs = "filterTradesByDateRange allTrades start e"
  let ?g = "groupTradesByMonth tz ?fs"
  let ?entries = "map (breakdownEntry tz ?g start) [1..<13]"
  have key: "(\<lambda>t. tradeMonthKey tz t = (yearOf (localDate tz start), m)) =
      (\<lambda>t. yearOf (date t) = yearOf start \<and> monthOf (date t) = m)" for m
    using assms by (auto simp: tradeMonthKey_east localDate_def fun_eq_iff)
  have nth: "?entries ! i = breakdownEntry tz ?g start (i + 1)" if "i < 12" for i
  proof -
    have "?entries ! i = breakdownEntry tz ?g start ([1..<13] ! i)"
      using that by simp
    also have "[1..<13] ! i = i + 1" using that by simp
    finally show ?thesis .
  qed
  have "\<forall>i<12. MonthlyBreakdownEntry.month (?entries ! i) = i + 1 \<and>
        trades (?entries ! i) =
          length (filter (\<lambda>t. yearOf (date t) = yearOf start \<and> monthOf (date t) = i + 1) ?fs) \<and>
        (filter (\<lambda>t. yearOf (date t) = yearOf start \<and> monthOf (date t) = i + 1) ?fs = [] \<longrightarrow>
           trades (?entries ! i) = 0 \<and> pnl (?entries ! i) = 0 \<and>
           MonthlyBreakdownEntry.winRate (?entries ! i) = 0)"
    by (simp add: nth breakdownEntry_fields key calculateTradeStats_fields)
  moreover have "length ?entries = 12" by simp
  ultimately show ?thesis using monthlyBreakdown_yearly[of tz allTrades start e] by blast
qed

lemma monthlyBreakdown_utc_example:
  "map_option (map (\<lambda>entry. (MonthlyBreakdownEntry.month entry, trades entry, pnl entry)))
     (monthlyBreakdown (generateHistoricalAnalytics 0
        [sampleTrade ''a'' (2025, 3, 1) 100] Yearly (2025, 1, 2) (2025, 12, 31)))
   = Some [(1, 0, 0), (2, 0, 0), (3, 1, 100), (4, 0, 0), (5, 0, 0), (6, 0, 0),
           (7, 0, 0), (8, 0, 0), (9, 0, 0), (10, 0, 0), (11, 0, 0), (12, 0, 0)]"
  unfolding monthlyBreakdown_yearly months_1_12
  by (simp add: breakdownEntry_fields
      filterTradesByDateRange_def tradeMonthKey_def getMonthKey_def localDate_def
      yearOf_def monthOf_def
      calculateTradeStats_fields)

text \<open>
  Claim C9 fails on a host west of UTC, where the local getters read every date string
  as the day before. At five hours west, a single trade dated 2025-03-01 in the range from
  2025-01-02 is counted in February, a month without trades, and March is empty. With the
  range starting on 2025-01-01 the year read from the start date is 2024, and a trade of
  June 2025 appears in no entry.
\<close>

theorem monthlyBreakdown_west_of_utc:
  "map_option (map (\<lambda>entry. (MonthlyBreakdownEntry.month entry, trades entry, pnl entry)))
     (monthlyBreakdown (generateHistoricalAnalytics (- 300)
        [sampleTrade ''a'' (2025, 3, 1) 100] Yearly (2025, 1, 2) (2025, 12, 31)))
   = Some [(1, 0, 0), (2, 1, 100), (3, 0, 0), (4, 0, 0), (5, 0, 0), (6, 0, 0),
           (7, 0, 0), (8, 0, 0), (9, 0, 0), (10, 0, 0), (11, 0, 0), (12, 0, 0)] \<and>
   map_option (map (\<lambda>entry. (MonthlyBreakdownEntry.month entry, trades entry, pnl entry)))
     (monthlyBreakdown (generateHistoricalAnalytics (- 300)
        [sampleTrade ''b'' (2025, 6, 15) 100] Yearly (2025, 1, 1) (2025, 12, 31)))
   = Some [(1, 0, 0), (2, 0, 0), (3, 0, 0), (4, 0, 0), (5, 0, 0), (6, 0, 0),
           (7, 0, 0), (8, 0, 0), (9, 0, 0), (10, 0, 0), (11, 0, 0), (12, 0, 0)]"
  unfolding monthlyBreakdown_yearly months_1_12
  by (simp add: breakdownEntry_fields
      filterTradesByDateRange_def tradeMonthKey_def getMonthKey_def localDate_def prevDay_def
      yearOf_def monthOf_def dayOf_def daysInMonth_def isLeapYear_def
      calculateTradeStats_fields)

section \<open>Maximum drawdown: the order of the input\<close>

text \<open>
  Claim C10: \<open>calculateMaxDrawdown\<close> sorts its input by date before the pass, so two
  arrays with the same trades, no two of them on the same date, give the same result
  whatever the order of either array.
\<close>

theorem calculateMaxDrawdown_permutation:
  assumes "mset xs = mset ys" and "distinct (map date xs)"
  shows "calculateMaxDrawdown xs = calculateMaxDrawdown ys"
proof -
  have len: "length xs = length ys" using assms(1) by (rule mset_eq_length)
  have asc: "arraySort byDateAscending zs = sort_key date zs" for zs
    using arraySort_sort_key[of date zs] by (simp add: byDateAscending_def[abs_def])
  have "sort_key date xs = sort_key date ys"
    using assms by (rule sort_key_distinct_perm)
  with len asc show ?thesis by (simp add: calculateMaxDrawdown_def)
qed

theorem calculateMaxDrawdown_permutation_witness:
  "mset [sampleTrade ''a'' (2025, 3, 1) 100, sampleTrade ''b'' (2025, 3, 2) (- 60),
         sampleTrade ''c'' (2025, 3, 3) 20]
     = mset [sampleTrade ''c'' (2025, 3, 3) 20, sampleTrade ''a'' (2025, 3, 1) 100,
             sampleTrade ''b'' (2025, 3, 2) (- 60)] \<and>
   distinct (map date [sampleTrade ''a'' (2025, 3, 1) 100, sampleTrade ''b'' (2025, 3, 2) (- 60),
         sampleTrade ''c'' (2025, 3, 3) 20]) \<and>
   calculateMaxDrawdown [sampleTrade ''c'' (2025, 3, 3) 20, sampleTrade ''a'' (2025, 3, 1) 100,
             sampleTrade ''b'' (2025, 3, 2) (- 60)] = 60"
proof -
  let ?xs = "[sampleTrade ''a'' (2025, 3, 1) 100, sampleTrade ''b'' (2025, 3, 2) (- 60),
         sampleTrade ''c'' (2025, 3, 3) 20]"
  let ?ys = "[sampleTrade ''c'' (2025, 3, 3) 20, sampleTrade ''a'' (2025, 3, 1) 100,
             sampleTrade ''b'' (2025, 3, 2) (- 60)]"
  have h1: "mset ?xs = mset ?ys" by simp
  have h2: "distinct (map date ?xs)" by simp
  have v: "calculateMaxDrawdown ?xs = 60"
    by (simp add: calculateMaxDrawdown_def arraySort_def drawdownStep_def byDateAscending_def)
  from calculateMaxDrawdown_permutation[OF h1 h2] v h1 h2 show ?thesis by simp
qed

text \<open>
  Between trades of the same date the order of the input is kept by the sort, and it can
  change the result.
\<close>

lemma calculateMaxDrawdown_same_date_order:
  "calculateMaxDrawdown [sampleTrade ''a'' (2025, 3, 1) (- 5), sampleTrade ''b'' (2025, 3, 1) 10,
       sampleTrade ''c'' (2025, 3, 1) (- 5)] = 5 \<and>
   calculateMaxDrawdown [sampleTrade ''a'' (2025, 3, 1) (- 5), sampleTrade ''c'' (2025, 3, 1) (- 5),
       sampleTrade ''b'' (2025, 3, 1) 10] = 10"
  by (simp add: calculateMaxDrawdown_def arraySort_def drawdownStep_def byDateAscending_def)

end
